theory Spec2Isabelle
  imports Main "HOL-Library.Word" "HOL-Library.AList"
begin

section \<open>Data model\<close>

text \<open>
  The Go package \<^verbatim>\<open>tg\<close> keeps three kinds of records in Redis, all keyed by the pair
  (chat id, user id): the session (\<^verbatim>\<open>sess\<close>), the queue meta (\<^verbatim>\<open>meta\<close>) and the list of
  queued updates (\<^verbatim>\<open>updates:<chat>:<user>\<close>). Go's \<^verbatim>\<open>int64\<close> is a 64-bit word, Go's
  \<^verbatim>\<open>int\<close> (message ids) is only compared and passed on and is an \<open>int\<close> here, and an
  instant of \<^verbatim>\<open>time.Time\<close> is a number of nanoseconds.
\<close>

type_synonym int64 = "64 word"
type_synonym time = int
type_synonym bytes = "8 word list"

text \<open>\<^verbatim>\<open>SessionState\<close> (session.go): a struct with the single field \<^verbatim>\<open>state\<close>.\<close>

datatype SessionState = SessionState (state: string)

definition sessionDestroy :: SessionState where
  "sessionDestroy = SessionState ''internal:destroy''"

definition sessionBreak :: SessionState where
  "sessionBreak = SessionState ''''"

definition SessStateBreak :: SessionState where
  "SessStateBreak = sessionBreak"

definition SessStateDestroy :: SessionState where
  "SessStateDestroy = sessionDestroy"

definition SessState :: "string \<Rightarrow> SessionState" where
  "SessState stateName = SessionState (''user:'' @ stateName)"

text \<open>
  The parts of \<^verbatim>\<open>tgbotapi.Update\<close> that the package reads. A pointer that may be nil is
  an option; the pointers the accessors dereference without a test
  (\<^verbatim>\<open>Message.Chat\<close>, \<^verbatim>\<open>Message.From\<close>, \<^verbatim>\<open>CallbackQuery.From\<close>,
  \<^verbatim>\<open>CallbackQuery.Message\<close>) are taken as present.
\<close>

record Message =
  MessageID :: int
  Chat_ID :: int64
  From_ID :: int64
  From_UserName :: string
  Text :: string

record CallbackQuery =
  cq_ID :: string
  cq_From_ID :: int64
  cq_From_UserName :: string
  cq_Message :: Message
  cq_Data :: string

record Update =
  upd_Message :: "Message option"
  upd_CallbackQuery :: "CallbackQuery option"

datatype UpdateType =
  UpdateTypeNone | UpdateTypeUnknown | UpdateTypeMessage | UpdateTypeCallback

text \<open>\<^verbatim>\<open>UpdateChain\<close> (updatechain.go): the chain type and the updates kept.\<close>

record UpdateChain =
  updateType :: UpdateType
  updates :: "Update list"

text \<open>The zero value \<^verbatim>\<open>var uc UpdateChain\<close>.\<close>

definition UpdateChain_zero :: UpdateChain where
  "UpdateChain_zero = \<lparr>updateType = UpdateTypeNone, updates = []\<rparr>"

section \<open>Update chain\<close>

definition updateTypeEltGet :: "Update \<Rightarrow> UpdateType" where
  "updateTypeEltGet update =
     (if upd_Message update \<noteq> None then UpdateTypeMessage
      else if upd_CallbackQuery update \<noteq> None then UpdateTypeCallback
      else UpdateTypeUnknown)"

definition updateIDsGet :: "Update \<Rightarrow> int64 \<times> int64" where
  "updateIDsGet update =
     (case upd_Message update of
        Some m \<Rightarrow> (Chat_ID m, From_ID m)
      | None \<Rightarrow>
          (case upd_CallbackQuery update of
             Some c \<Rightarrow> (Chat_ID (cq_Message c), cq_From_ID c)
           | None \<Rightarrow> (0, 0)))"

definition updateUserNameGet :: "Update \<Rightarrow> string" where
  "updateUserNameGet update =
     (case upd_Message update of
        Some m \<Rightarrow> From_UserName m
      | None \<Rightarrow>
          (case upd_CallbackQuery update of
             Some c \<Rightarrow> cq_From_UserName c
           | None \<Rightarrow> ''''))"

text \<open>
  One turn of the loop of \<^verbatim>\<open>UpdateChain.add(updates)\<close> (updatechain.go, the method
  \<^verbatim>\<open>queue.chainGet\<close> calls): an update of unknown type is skipped, the first other
  update gives the chain its type, and an update of another type is skipped.
\<close>

definition add_step :: "UpdateChain \<Rightarrow> Update \<Rightarrow> UpdateChain" where
  "add_step uc u =
     (let t = updateTypeEltGet u in
      if t = UpdateTypeUnknown then uc
      else
        let uc1 = (if updateType uc = UpdateTypeNone then uc\<lparr>updateType := t\<rparr> else uc) in
        if updateType uc1 \<noteq> t then uc1
        else uc1\<lparr>updates := updates uc1 @ [u]\<rparr>)"

fun add :: "UpdateChain \<Rightarrow> Update list \<Rightarrow> UpdateChain" where
  "add uc [] = uc"
| "add uc (u # us) = add (add_step uc u) us"

text \<open>
  The other \<^verbatim>\<open>UpdateChain\<close> of the repository (second text of updatechain.go): the chain
  also records the identity and the user name, and \<^verbatim>\<open>add(chatID, userID, updates)\<close>
  compares every update with the identity it was called with.
\<close>

record UpdateChainID = UpdateChain +
  uc_chatID :: int64
  uc_userID :: int64
  uc_userName :: string

definition UpdateChainID_zero :: UpdateChainID where
  "UpdateChainID_zero =
     \<lparr>updateType = UpdateTypeNone, updates = [], uc_chatID = 0, uc_userID = 0, uc_userName = ''''\<rparr>"

definition add_id_step :: "int64 \<Rightarrow> int64 \<Rightarrow> UpdateChainID \<Rightarrow> Update \<Rightarrow> UpdateChainID" where
  "add_id_step cid uid uc u =
     (let t = updateTypeEltGet u in
      if t = UpdateTypeUnknown then uc
      else
        let uc1 = (if updateType uc = UpdateTypeNone
                   then uc\<lparr>updateType := t, uc_chatID := cid, uc_userID := uid,
                           uc_userName := updateUserNameGet u\<rparr>
                   else uc) in
        if updateType uc1 \<noteq> t then uc1
        else
          let (cID, uID) = updateIDsGet u in
          if uc_chatID uc1 \<noteq> cID \<or> uc_userID uc1 \<noteq> uID then uc1
          else uc1\<lparr>updates := updates uc1 @ [u]\<rparr>)"

fun add_id :: "int64 \<Rightarrow> int64 \<Rightarrow> UpdateChainID \<Rightarrow> Update list \<Rightarrow> UpdateChainID" where
  "add_id cid uid uc [] = uc"
| "add_id cid uid uc (u # us) = add_id cid uid (add_id_step cid uid uc u) us"

section \<open>Redis\<close>

text \<open>
  The Redis server is shared by every connection, so its content is part of the world
  the functions read and change. The hash \<^verbatim>\<open>sess\<close> and the hash \<^verbatim>\<open>meta\<close> have the
  field \<^verbatim>\<open>"<chat>:<user>"\<close>, the lists are named \<^verbatim>\<open>"updates:<chat>:<user>"\<close>;
  \<^verbatim>\<open>strconv.FormatInt\<close> and \<^verbatim>\<open>strconv.ParseInt\<close> are inverse to each other, so the
  field is the pair of ids itself. The values are kept decoded: \<^verbatim>\<open>json.Marshal\<close> and
  \<^verbatim>\<open>json.Unmarshal\<close> of a session, an instant or an update are taken as a lossless pair
  that does not fail. The hash \<^verbatim>\<open>meta\<close> is an association list in the order in which
  \<^verbatim>\<open>HGetAll\<close> and Go's \<^verbatim>\<open>range\<close> enumerate it; a list that does not exist is the
  empty list, as in Redis. A command fails when \<open>redis_failing\<close> says so for its name
  and key space, and a failed command changes nothing.
\<close>

datatype cmd = HSet | HGet | HDel | HGetAll | RPush | LLen | LPop | Del

datatype error =
    ErrDescriptionStateMissing
  | ErrUpdateChainZeroLen
  | Errorf string
  | RedisError cmd string
  | RedisNil
  | BotError string
  | CodecError string
  | HandlerError string
  | Panic string

type_synonym ident = "int64 \<times> int64"

text \<open>\<^verbatim>\<open>data\<close> (session.go): the session as it is stored.\<close>

record data =
  data_State :: string
  data_Slots :: "string \<rightharpoonup> bytes"

definition data_zero :: data where
  "data_zero = \<lparr>data_State = [], data_Slots = Map.empty\<rparr>"


datatype ParseMode = ParseModeMarkdown | ParseModeMarkdownV2 | ParseModeHTML

datatype ButtonMode = ButtonModeData | ButtonModeURL | ButtonModeSwitch

record Button =
  btn_Text :: string
  btn_Identifier :: string
  btn_Mode :: ButtonMode

record SendMessageData =
  smd_Message :: string
  smd_ParseMode :: ParseMode
  smd_DisableWebPagePreview :: bool
  smd_Buttons :: "Button list list"
  smd_ButtonState :: SessionState

text \<open>
  What \<^verbatim>\<open>Telegram.SendMessage\<close> hands to \<^verbatim>\<open>bot.Send\<close>: a new message, or the edit of
  the message with the given id. The inline keyboard is a function of the buttons and
  the button state, which the request carries as they are.
\<close>

datatype Chattable =
    NewMessage int64 SendMessageData
  | NewEditMessageText int64 int SendMessageData

record world =
  sess_hash :: "ident \<rightharpoonup> data"
  meta_hash :: "(ident \<times> time) list"
  updates_list :: "ident \<Rightarrow> Update list"
  redis_failing :: "cmd \<Rightarrow> string \<Rightarrow> bool"
  bot_sent :: "Chattable list"
  bot_reply :: "Chattable \<Rightarrow> error + Message"

definition sessionKey :: string where "sessionKey = ''sess''"

definition queueMetaKey :: string where "queueMetaKey = ''meta''"

definition queueUpdatesKey :: string where "queueUpdatesKey = ''updates''"

definition sessSave :: "int64 \<Rightarrow> int64 \<Rightarrow> data \<Rightarrow> world \<Rightarrow> (error + unit) \<times> world" where
  "sessSave chat user d w =
     (if redis_failing w HSet sessionKey then (Inl (RedisError HSet sessionKey), w)
      else (Inr (), w\<lparr>sess_hash := (sess_hash w)((chat, user) \<mapsto> d)\<rparr>))"

text \<open>\<^verbatim>\<open>sessGet\<close> returns \<^verbatim>\<open>(data, bool, error)\<close>; it only reads.\<close>

definition sessGet :: "int64 \<Rightarrow> int64 \<Rightarrow> world \<Rightarrow> error + (data \<times> bool)" where
  "sessGet chat user w =
     (if redis_failing w HGet sessionKey then Inl (RedisError HGet sessionKey)
      else case sess_hash w (chat, user) of
             None \<Rightarrow> Inr (data_zero, False)
           | Some d \<Rightarrow> Inr (d, True))"



text \<open>\<^verbatim>\<open>queueMetaDel\<close> returns the number of fields \<^verbatim>\<open>HDel\<close> removed.\<close>

definition queueMetaDel :: "int64 \<Rightarrow> int64 \<Rightarrow> world \<Rightarrow> (error + int64) \<times> world" where
  "queueMetaDel chat user w =
     (if redis_failing w HDel queueMetaKey then (Inl (RedisError HDel queueMetaKey), w)
      else (Inr (if map_of (meta_hash w) (chat, user) = None then 0 else 1),
            w\<lparr>meta_hash := AList.delete (chat, user) (meta_hash w)\<rparr>))"




definition queueUpdateDel :: "int64 \<Rightarrow> int64 \<Rightarrow> world \<Rightarrow> (error + unit) \<times> world" where
  "queueUpdateDel chat user w =
     (if redis_failing w Del queueUpdatesKey then (Inl (RedisError Del queueUpdatesKey), w)
      else (Inr (), w\<lparr>updates_list := (updates_list w)((chat, user) := [])\<rparr>))"

definition sessDel :: "int64 \<Rightarrow> int64 \<Rightarrow> world \<Rightarrow> (error + unit) \<times> world" where
  "sessDel chat user w =
     (if redis_failing w HDel sessionKey then (Inl (RedisError HDel sessionKey), w)
      else
        let w1 = w\<lparr>sess_hash := (sess_hash w)((chat, user) := None)\<rparr> in
        case queueMetaDel chat user w1 of
          (Inl err, w2) \<Rightarrow> (Inl err, w2)
        | (Inr _, w2) \<Rightarrow>
            (case queueUpdateDel chat user w2 of
               (Inl err, w3) \<Rightarrow> (Inl err, w3)
             | (Inr _, w3) \<Rightarrow> (Inr (), w3)))"

section \<open>Queue\<close>





section \<open>Outbound transport\<close>

text \<open>
  \<^verbatim>\<open>Telegram.SendMessage\<close> (telegram.go) builds the request and calls \<^verbatim>\<open>bot.Send\<close>; the
  bot is outside the repository: \<open>bot_sent\<close> records the requests in the order they
  were made and \<open>bot_reply\<close> is the bot's answer to a request. A message id of 0 asks
  for a new message, any other id for the edit of that message.
\<close>

definition SendMessage ::
  "int64 \<Rightarrow> int \<Rightarrow> SendMessageData \<Rightarrow> world \<Rightarrow> (error + Message list) \<times> world" where
  "SendMessage chat messageID msgData w =
     (let req = (if messageID = 0 then NewMessage chat msgData
                 else NewEditMessageText chat messageID msgData);
          w1 = w\<lparr>bot_sent := bot_sent w @ [req]\<rparr>
      in case bot_reply w req of
           Inl err \<Rightarrow> (Inl err, w1)
         | Inr mr \<Rightarrow> (Inr [mr], w1))"

section \<open>Session\<close>

text \<open>
  \<^verbatim>\<open>Session\<close> (session.go); its Redis connection is the world. The handlers of the bot
  description get the session and may read and change the world in any way (slots,
  messages), so a handler is a function from the session and the world to its result
  and the world it leaves. The results \<^verbatim>\<open>MessageHandlerRes\<close>, \<^verbatim>\<open>CallbackHandlerRes\<close> and
  \<^verbatim>\<open>ErrorHandlerRes\<close> have the single field \<^verbatim>\<open>NextState\<close> and are that state.
\<close>

record Session =
  chatID :: int64
  userID :: int64
  userName :: string
  updateChain :: UpdateChain

record StateHandlerRes =
  hr_Message :: string
  hr_ParseMode :: ParseMode
  hr_DisableWebPagePreview :: bool
  hr_Buttons :: "Button list list"
  hr_NextState :: SessionState
  hr_StickMessage :: bool

record State =
  StateHandler :: "(Session \<Rightarrow> world \<Rightarrow> (error + StateHandlerRes) \<times> world) option"
  MessageHandler :: "(Session \<Rightarrow> world \<Rightarrow> (error + SessionState) \<times> world) option"
  CallbackHandler :: "(Session \<Rightarrow> string \<Rightarrow> world \<Rightarrow> (error + SessionState) \<times> world) option"
  SentHandler :: "(Session \<Rightarrow> Message list \<Rightarrow> world \<Rightarrow> (error + unit) \<times> world) option"

record Description =
  States :: "SessionState \<rightharpoonup> State"
  ErrorHandler :: "(Session \<Rightarrow> error \<Rightarrow> world \<Rightarrow> (error + SessionState) \<times> world) option"

record Telegram =
  description :: Description

definition ChatIDGet :: "Session \<Rightarrow> int64" where
  "ChatIDGet s = chatID s"

text \<open>
  The slot operations. \<^verbatim>\<open>gob\<close> is outside the repository: \<open>enc\<close> is
  \<^verbatim>\<open>gob.NewEncoder(&buf).Encode(data)\<close> with the bytes of the buffer, \<open>dec\<close> is
  \<^verbatim>\<open>gob.NewDecoder(...).Decode(data)\<close> with the value left behind the pointer.
  \<^verbatim>\<open>SlotGet\<close> returns \<^verbatim>\<open>(bool, error)\<close> and writes the value found.
\<close>

definition SlotSave ::
  "('a \<Rightarrow> error + bytes) \<Rightarrow> Session \<Rightarrow> string \<Rightarrow> 'a \<Rightarrow> world \<Rightarrow> (error + unit) \<times> world" where
  "SlotSave enc s slot v w =
     (case sessGet (chatID s) (userID s) w of
        Inl err \<Rightarrow> (Inl err, w)
      | Inr (d, e) \<Rightarrow>
          if e = False then (Inl (Errorf ''session does not exist''), w)
          else
            (case enc v of
               Inl err \<Rightarrow> (Inl err, w)
             | Inr b \<Rightarrow>
                 sessSave (chatID s) (userID s) (d\<lparr>data_Slots := (data_Slots d)(slot \<mapsto> b)\<rparr>) w))"

definition SlotGet ::
  "(bytes \<Rightarrow> error + 'a) \<Rightarrow> Session \<Rightarrow> string \<Rightarrow> world \<Rightarrow> error + (bool \<times> 'a option)" where
  "SlotGet dec s slot w =
     (case sessGet (chatID s) (userID s) w of
        Inl err \<Rightarrow> Inl err
      | Inr (d, e) \<Rightarrow>
          if e = False then Inl (Errorf ''session does not exist'')
          else
            (case data_Slots d slot of
               None \<Rightarrow> Inr (False, None)
             | Some ds \<Rightarrow>
                 (case dec ds of
                    Inl err \<Rightarrow> Inl err
                  | Inr v \<Rightarrow> Inr (True, Some v))))"

definition SlotDel :: "Session \<Rightarrow> string \<Rightarrow> world \<Rightarrow> (error + unit) \<times> world" where
  "SlotDel s slot w =
     (case sessGet (chatID s) (userID s) w of
        Inl err \<Rightarrow> (Inl err, w)
      | Inr (d, e) \<Rightarrow>
          if e = False then (Inl (Errorf ''session does not exist''), w)
          else sessSave (chatID s) (userID s) (d\<lparr>data_Slots := (data_Slots d)(slot := None)\<rparr>) w)"

definition destroy :: "Session \<Rightarrow> world \<Rightarrow> (error + unit) \<times> world" where
  "destroy s w = sessDel (chatID s) (userID s) w"

definition StateGet :: "Session \<Rightarrow> world \<Rightarrow> error + (SessionState \<times> bool)" where
  "StateGet s w =
     (case sessGet (chatID s) (userID s) w of
        Inl err \<Rightarrow> Inl err
      | Inr (d, e) \<Rightarrow> Inr (SessionState (data_State d), e))"

definition stateSet :: "Session \<Rightarrow> SessionState \<Rightarrow> world \<Rightarrow> (error + unit) \<times> world" where
  "stateSet s st w =
     (case sessGet (chatID s) (userID s) w of
        Inl err \<Rightarrow> (Inl err, w)
      | Inr (d, e) \<Rightarrow>
          let d1 = (if e = False then \<lparr>data_State = state st, data_Slots = Map.empty\<rparr>
                    else d\<lparr>data_State := state st\<rparr>)
          in sessSave (chatID s) (userID s) d1 w)"

section \<open>State machine\<close>

text \<open>
  \<^verbatim>\<open>Session.stateSwitch\<close> calls itself and nothing bounds the calls, so the function has
  fuel: every call takes one unit, and \<open>None\<close> says that the fuel did not suffice.
  A result \<open>Some (Inr (), w)\<close> is the return of \<^verbatim>\<open>nil\<close> in the world \<open>w\<close>.

  \<open>stateSwitch_send\<close> is the block "Send message to user if set" of the function:
  when the message of the state handler is not empty it is sent, and after a
  successful send the sent handler of the state runs, if there is one.
\<close>

definition stateSwitch_send ::
  "State \<Rightarrow> Session \<Rightarrow> SessionState \<Rightarrow> int \<Rightarrow> StateHandlerRes \<Rightarrow> world \<Rightarrow> (error + unit) \<times> world" where
  "stateSwitch_send st s newState mID hr w =
     (if length (hr_Message hr) > 0 then
        (case SendMessage (ChatIDGet s) mID
                \<lparr>smd_Message = hr_Message hr,
                 smd_ParseMode = ParseModeMarkdown,
                 smd_DisableWebPagePreview = False,
                 smd_Buttons = hr_Buttons hr,
                 smd_ButtonState = newState\<rparr> w of
           (Inl err, w3) \<Rightarrow> (Inl err, w3)
         | (Inr msgs, w3) \<Rightarrow>
             (case SentHandler st of
                None \<Rightarrow> (Inr (), w3)
              | Some sh \<Rightarrow> sh s msgs w3))
      else (Inr (), w))"

fun stateSwitch ::
  "nat \<Rightarrow> Telegram \<Rightarrow> Session \<Rightarrow> SessionState \<Rightarrow> int \<Rightarrow> world \<Rightarrow> ((error + unit) \<times> world) option" where
  "stateSwitch 0 t s newState messageID w = None"
| "stateSwitch (Suc n) t s newState messageID w =
     (if newState = sessionBreak then Some (Inr (), w)
      else if newState = sessionDestroy then Some (destroy s w)
      else
        case States (description t) newState of
          None \<Rightarrow> Some (Inl ErrDescriptionStateMissing, w)
        | Some st \<Rightarrow>
            (case stateSet s newState w of
               (Inl err, w1) \<Rightarrow> Some (Inl err, w1)
             | (Inr _, w1) \<Rightarrow>
                 (case StateHandler st of
                    None \<Rightarrow> Some (Inr (), w1)
                  | Some h \<Rightarrow>
                      (case h s w1 of
                         (Inl err, w2) \<Rightarrow>
                           (case ErrorHandler (description t) of
                              None \<Rightarrow> Some (Inl err, w2)
                            | Some eh \<Rightarrow>
                                (case eh s err w2 of
                                   (Inl err', w3) \<Rightarrow> Some (Inl err', w3)
                                 | (Inr r, w3) \<Rightarrow> stateSwitch n t s r 0 w3))
                       | (Inr hr, w2) \<Rightarrow>
                           let mID = (if hr_StickMessage hr = True then messageID else 0) in
                           (case stateSwitch_send st s newState mID hr w2 of
                              (Inl err, w4) \<Rightarrow> Some (Inl err, w4)
                            | (Inr _, w4) \<Rightarrow>
                                if MessageHandler st \<noteq> None then Some (Inr (), w4)
                                else stateSwitch n t s (hr_NextState hr) mID w4)))))"

section \<open>Callbacks\<close>

text \<open>
  \<^verbatim>\<open>callbackData\<close> (updatechain.go) is what a button carries: the state whose callback
  handler is to run and the identifier of the button. \<^verbatim>\<open>json.Unmarshal\<close> of the
  payload is outside the repository and is the parameter \<open>unmarshal\<close>. A nil
  pointer that Go would dereference is the error \<open>Panic\<close>.
\<close>

record callbackData =
  cb_S :: string
  cb_I :: string

definition MessagesIDGet :: "UpdateChain \<Rightarrow> error + int" where
  "MessagesIDGet uc =
     (case updates uc of
        [] \<Rightarrow> Inr 0
      | u # _ \<Rightarrow>
          (case updateType uc of
             UpdateTypeMessage \<Rightarrow>
               (case upd_Message u of
                  None \<Rightarrow> Inl (Panic ''nil pointer dereference'')
                | Some m \<Rightarrow> Inr (MessageID m))
           | UpdateTypeCallback \<Rightarrow>
               (case upd_CallbackQuery u of
                  None \<Rightarrow> Inl (Panic ''nil pointer dereference'')
                | Some c \<Rightarrow> Inr (MessageID (cq_Message c)))
           | _ \<Rightarrow> Inr 0))"

definition callbackDataGet :: "UpdateChain \<Rightarrow> error + string" where
  "callbackDataGet uc =
     (if updateType uc \<noteq> UpdateTypeCallback then Inr ''''
      else case updates uc of
             [] \<Rightarrow> Inr ''''
           | u # _ \<Rightarrow>
               (case upd_CallbackQuery u of
                  None \<Rightarrow> Inl (Panic ''nil pointer dereference'')
                | Some c \<Rightarrow> Inr (cq_Data c)))"

definition callbackSessionStateGet ::
  "(string \<Rightarrow> error + callbackData) \<Rightarrow> UpdateChain \<Rightarrow> error + (SessionState \<times> string)" where
  "callbackSessionStateGet unmarshal uc =
     (case callbackDataGet uc of
        Inl err \<Rightarrow> Inl err
      | Inr data \<Rightarrow>
          if length data = 0 then Inr (sessionBreak, '''')
          else
            (case unmarshal data of
               Inl err \<Rightarrow> Inl err
             | Inr d \<Rightarrow> Inr (SessionState (cb_S d), cb_I d)))"

text \<open>
  \<^verbatim>\<open>Session.stateCallbackProcessing\<close>; the fuel is the one of the call of
  \<^verbatim>\<open>stateSwitch\<close> it ends with.
\<close>

definition stateCallbackProcessing ::
  "nat \<Rightarrow> (string \<Rightarrow> error + callbackData) \<Rightarrow> Telegram \<Rightarrow> Session \<Rightarrow> world
     \<Rightarrow> ((error + unit) \<times> world) option" where
  "stateCallbackProcessing fuel unmarshal t s w =
     (case callbackSessionStateGet unmarshal (updateChain s) of
        Inl err \<Rightarrow> Some (Inl err, w)
      | Inr (cbs, identifier) \<Rightarrow>
          if cbs = sessionBreak \<or> cbs = sessionDestroy then
            (case MessagesIDGet (updateChain s) of
               Inl err \<Rightarrow> Some (Inl err, w)
             | Inr mid \<Rightarrow> stateSwitch fuel t s cbs mid w)
          else
            (case States (description t) cbs of
               None \<Rightarrow> Some (Inl ErrDescriptionStateMissing, w)
             | Some st \<Rightarrow>
                 (case CallbackHandler st of
                    None \<Rightarrow> Some (Inr (), w)
                  | Some h \<Rightarrow>
                      (case h s identifier w of
                         (Inl err, w1) \<Rightarrow>
                           (case ErrorHandler (description t) of
                              None \<Rightarrow> Some (Inl err, w1)
                            | Some eh \<Rightarrow>
                                (case eh s err w1 of
                                   (Inl err', w2) \<Rightarrow> Some (Inl err', w2)
                                 | (Inr ns, w2) \<Rightarrow>
                                     (case MessagesIDGet (updateChain s) of
                                        Inl p \<Rightarrow> Some (Inl p, w2)
                                      | Inr mid \<Rightarrow> stateSwitch fuel t s ns mid w2)))
                       | (Inr ns, w1) \<Rightarrow>
                           (case MessagesIDGet (updateChain s) of
                              Inl p \<Rightarrow> Some (Inl p, w1)
                            | Inr mid \<Rightarrow> stateSwitch fuel t s ns mid w1)))))"

section \<open>Example inputs\<close>

text \<open>
  Two conversations \<open>A\<close> = (10, 100) and \<open>B\<close> = (20, 200): messages of both, a
  button press of \<open>A\<close>, and an empty world in which no command fails.
\<close>

definition msgA :: Update where
  "msgA = \<lparr>upd_Message = Some \<lparr>MessageID = 1, Chat_ID = 10, From_ID = 100,
             From_UserName = ''ann'', Text = ''hello''\<rparr>,
           upd_CallbackQuery = None\<rparr>"

definition msgB :: Update where
  "msgB = \<lparr>upd_Message = Some \<lparr>MessageID = 2, Chat_ID = 20, From_ID = 200,
             From_UserName = ''bob'', Text = ''hi''\<rparr>,
           upd_CallbackQuery = None\<rparr>"

definition cbA :: Update where
  "cbA = \<lparr>upd_Message = None,
          upd_CallbackQuery = Some \<lparr>cq_ID = ''q1'', cq_From_ID = 100, cq_From_UserName = ''ann'',
             cq_Message = \<lparr>MessageID = 7, Chat_ID = 10, From_ID = 1,
                            From_UserName = ''bot'', Text = ''menu''\<rparr>,
             cq_Data = ''next''\<rparr>\<rparr>"

definition world0 :: world where
  "world0 = \<lparr>sess_hash = Map.empty, meta_hash = [], updates_list = (\<lambda>k. []),
             redis_failing = (\<lambda>c k. False), bot_sent = [],
             bot_reply = (\<lambda>req. Inr \<lparr>MessageID = 77, Chat_ID = 10, From_ID = 1,
                                        From_UserName = ''bot'', Text = ''''\<rparr>)\<rparr>"

definition sessA :: Session where
  "sessA = \<lparr>chatID = 10, userID = 100, userName = ''ann'',
            updateChain = \<lparr>updateType = UpdateTypeMessage, updates = [msgA]\<rparr>\<rparr>"

text \<open>
  A bot with no state declared, and a bot whose only state \<^verbatim>\<open>SessState("welcome")\<close> has
  no handler at all.
\<close>

definition state_idle :: State where
  "state_idle = \<lparr>StateHandler = None, MessageHandler = None, CallbackHandler = None,
                 SentHandler = None\<rparr>"


definition telegram1 :: Telegram where
  "telegram1 = \<lparr>description =
      \<lparr>States = [SessState ''welcome'' \<mapsto> state_idle], ErrorHandler = None\<rparr>\<rparr>"

text \<open>
  A world in which conversation \<open>A\<close> has a session in the state \<^verbatim>\<open>SessState("welcome")\<close>
  with one slot, and a codec for slots that hold bytes as they are.
\<close>

definition world1 :: world where
  "world1 = world0\<lparr>sess_hash :=
      [(10, 100) \<mapsto> \<lparr>data_State = ''user:welcome'', data_Slots = [''age'' \<mapsto> [42]]\<rparr>]\<rparr>"

definition raw_enc :: "bytes \<Rightarrow> error + bytes" where
  "raw_enc v = Inr v"

definition raw_dec :: "bytes \<Rightarrow> error + bytes" where
  "raw_dec b = Inr b"

text \<open>
  Button presses of conversation \<open>A\<close>: the payload \<open>''kill''\<close> stands for the destroy
  state, \<open>''stay''\<close> for the break state and \<open>''next''\<close> for a state that no bot
  declares; \<open>json_fix\<close> decodes these payloads. In \<open>world2\<close> conversation \<open>A\<close> also
  has a queue: a meta and one update waiting.
\<close>

definition json_fix :: "string \<Rightarrow> error + callbackData" where
  "json_fix payload =
     (if payload = ''kill'' then Inr \<lparr>cb_S = ''internal:destroy'', cb_I = ''''\<rparr>
      else if payload = ''stay'' then Inr \<lparr>cb_S = '''', cb_I = ''''\<rparr>
      else if payload = ''next'' then Inr \<lparr>cb_S = ''user:ghost'', cb_I = ''1''\<rparr>
      else Inl (CodecError ''invalid character''))"

definition press :: "string \<Rightarrow> Update" where
  "press payload = \<lparr>upd_Message = None,
          upd_CallbackQuery = Some \<lparr>cq_ID = ''q1'', cq_From_ID = 100, cq_From_UserName = ''ann'',
             cq_Message = \<lparr>MessageID = 7, Chat_ID = 10, From_ID = 1,
                            From_UserName = ''bot'', Text = ''menu''\<rparr>,
             cq_Data = payload\<rparr>\<rparr>"

definition sessPress :: "string \<Rightarrow> Session" where
  "sessPress payload = \<lparr>chatID = 10, userID = 100, userName = ''ann'',
            updateChain = \<lparr>updateType = UpdateTypeCallback, updates = [press payload]\<rparr>\<rparr>"

definition world2 :: world where
  "world2 = world1\<lparr>meta_hash := [((10, 100), 500)], updates_list := (\<lambda>k. [])((10, 100) := [msgA])\<rparr>"

text \<open>
  States whose handler only says something: \<open>state_say m nxt stick\<close> answers with the
  message \<open>m\<close>, the next state \<open>nxt\<close> and the stick flag, and touches nothing. The bot
  \<open>telegram_ask\<close> has the state \<^verbatim>\<open>SessState("ask")\<close> that waits for a message and names
  an undeclared next state; the bot \<open>telegram_ab\<close> has two states that ask for stick,
  \<^verbatim>\<open>SessState("a")\<close> leading to \<^verbatim>\<open>SessState("b")\<close> leading to break.
\<close>

definition hr_say :: "string \<Rightarrow> SessionState \<Rightarrow> bool \<Rightarrow> StateHandlerRes" where
  "hr_say m nxt stick =
     \<lparr>hr_Message = m, hr_ParseMode = ParseModeMarkdown, hr_DisableWebPagePreview = False,
      hr_Buttons = [], hr_NextState = nxt, hr_StickMessage = stick\<rparr>"

definition state_say :: "string \<Rightarrow> SessionState \<Rightarrow> bool \<Rightarrow> State" where
  "state_say m nxt stick =
     \<lparr>StateHandler = Some (\<lambda>s w. (Inr (hr_say m nxt stick), w)), MessageHandler = None,
      CallbackHandler = None, SentHandler = None\<rparr>"

definition state_ask :: State where
  "state_ask = (state_say ''Name?'' (SessState ''ghost'') False)
     \<lparr>MessageHandler := Some (\<lambda>s w. (Inr sessionBreak, w))\<rparr>"

definition telegram_ask :: Telegram where
  "telegram_ask = \<lparr>description =
      \<lparr>States = [SessState ''ask'' \<mapsto> state_ask], ErrorHandler = None\<rparr>\<rparr>"

definition telegram_ab :: Telegram where
  "telegram_ab = \<lparr>description =
      \<lparr>States = [SessState ''a'' \<mapsto> state_say ''one'' (SessState ''b'') True,
                 SessState ''b'' \<mapsto> state_say ''two'' sessionBreak True],
       ErrorHandler = None\<rparr>\<rparr>"

definition say_data :: "string \<Rightarrow> SessionState \<Rightarrow> SendMessageData" where
  "say_data m st = \<lparr>smd_Message = m, smd_ParseMode = ParseModeMarkdown,
      smd_DisableWebPagePreview = False, smd_Buttons = [], smd_ButtonState = st\<rparr>"





text \<open>
  The bot \<open>telegram_err\<close> declares an error handler that answers every error with the
  state \<^verbatim>\<open>SessState("b")\<close>; its state \<^verbatim>\<open>SessState("bad")\<close> waits for a message and has
  a state handler that fails.
\<close>

definition state_bad :: State where
  "state_bad =
     \<lparr>StateHandler = Some (\<lambda>s w. (Inl (HandlerError ''boom''), w)),
      MessageHandler = Some (\<lambda>s w. (Inr sessionBreak, w)),
      CallbackHandler = None, SentHandler = None\<rparr>"

definition telegram_err :: Telegram where
  "telegram_err = \<lparr>description =
      \<lparr>States = [SessState ''bad'' \<mapsto> state_bad,
                 SessState ''b'' \<mapsto> state_say ''two'' sessionBreak False],
       ErrorHandler = Some (\<lambda>s e w. (Inr (SessState ''b''), w))\<rparr>\<rparr>"

section \<open>Properties\<close>

subsection \<open>Update chain\<close>

lemma updateTypeEltGet_not_None: "updateTypeEltGet u \<noteq> UpdateTypeNone"
  by (simp add: updateTypeEltGet_def)

lemma filter_head_sat: "filter P xs = y # ys \<Longrightarrow> P y"
  by (induction xs) (auto split: if_splits)

lemma add_typed:
  "updateType uc \<noteq> UpdateTypeNone \<Longrightarrow> updateType uc \<noteq> UpdateTypeUnknown \<Longrightarrow>
   add uc us = uc\<lparr>updates := updates uc @ filter (\<lambda>u. updateTypeEltGet u = updateType uc) us\<rparr>"
proof (induction us arbitrary: uc)
  case Nil
  then show ?case by simp
next
  case (Cons u us)
  show ?case
  proof (cases "updateTypeEltGet u = updateType uc")
    case True
    with Cons.prems have step: "add_step uc u = uc\<lparr>updates := updates uc @ [u]\<rparr>"
      by (simp add: add_step_def Let_def)
    show ?thesis using Cons.prems True
      by (simp add: step Cons.IH)
  next
    case False
    with Cons.prems have step: "add_step uc u = uc"
      by (auto simp add: add_step_def Let_def)
    show ?thesis using Cons.prems False
      by (simp add: step Cons.IH)
  qed
qed

lemma add_step_unknown:
  "updateTypeEltGet u = UpdateTypeUnknown \<Longrightarrow> add_step uc u = uc"
  by (simp add: add_step_def)

lemma add_zero:
  "add UpdateChain_zero us =
     (case filter (\<lambda>u. updateTypeEltGet u \<noteq> UpdateTypeUnknown) us of
        [] \<Rightarrow> UpdateChain_zero
      | c # _ \<Rightarrow> \<lparr>updateType = updateTypeEltGet c,
                  updates = filter (\<lambda>u. updateTypeEltGet u = updateTypeEltGet c) us\<rparr>)"
proof (induction us)
  case Nil
  then show ?case by simp
next
  case (Cons u us)
  show ?case
  proof (cases "updateTypeEltGet u = UpdateTypeUnknown")
    case True
    then show ?thesis using Cons.IH
      by (auto simp add: add_step_unknown split: list.splits dest: filter_head_sat)
  next
    case False
    then have step: "add_step UpdateChain_zero u = \<lparr>updateType = updateTypeEltGet u, updates = [u]\<rparr>"
      by (simp add: add_step_def UpdateChain_zero_def Let_def)
    show ?thesis using False
      by (simp add: step add_typed updateTypeEltGet_not_None)
  qed
qed

lemma add_id_typed:
  "updateType uc \<noteq> UpdateTypeNone \<Longrightarrow> updateType uc \<noteq> UpdateTypeUnknown \<Longrightarrow>
   add_id cid uid uc us =
     uc\<lparr>updates := updates uc @
          filter (\<lambda>u. updateTypeEltGet u = updateType uc
                     \<and> updateIDsGet u = (uc_chatID uc, uc_userID uc)) us\<rparr>"
proof (induction us arbitrary: uc)
  case Nil
  then show ?case by simp
next
  case (Cons u us)
  show ?case
  proof (cases "updateTypeEltGet u = updateType uc
                \<and> updateIDsGet u = (uc_chatID uc, uc_userID uc)")
    case True
    with Cons.prems have step: "add_id_step cid uid uc u = uc\<lparr>updates := updates uc @ [u]\<rparr>"
      by (auto simp add: add_id_step_def Let_def split: prod.splits)
    show ?thesis using Cons.prems True
      by (simp add: step Cons.IH)
  next
    case False
    with Cons.prems have step: "add_id_step cid uid uc u = uc"
      by (auto simp add: add_id_step_def Let_def split: prod.splits)
    show ?thesis using Cons.prems False
      by (simp add: step Cons.IH)
  qed
qed

lemma add_id_zero:
  "add_id cid uid UpdateChainID_zero us =
     (case filter (\<lambda>u. updateTypeEltGet u \<noteq> UpdateTypeUnknown) us of
        [] \<Rightarrow> UpdateChainID_zero
      | c # _ \<Rightarrow> \<lparr>updateType = updateTypeEltGet c,
                  updates = filter (\<lambda>u. updateTypeEltGet u = updateTypeEltGet c
                                       \<and> updateIDsGet u = (cid, uid)) us,
                  uc_chatID = cid, uc_userID = uid, uc_userName = updateUserNameGet c\<rparr>)"
proof (induction us)
  case Nil
  then show ?case by simp
next
  case (Cons u us)
  show ?case
  proof (cases "updateTypeEltGet u = UpdateTypeUnknown")
    case True
    then have "add_id_step cid uid UpdateChainID_zero u = UpdateChainID_zero"
      by (simp add: add_id_step_def)
    then show ?thesis using Cons.IH True
      by (auto split: list.splits dest: filter_head_sat)
  next
    case False
    define uc1 where "uc1 = \<lparr>updateType = updateTypeEltGet u, updates = [],
        uc_chatID = cid, uc_userID = uid, uc_userName = updateUserNameGet u\<rparr>"
    have step: "add_id_step cid uid UpdateChainID_zero u =
        (if updateIDsGet u = (cid, uid) then uc1\<lparr>updates := [u]\<rparr> else uc1)"
      using False
      by (auto simp add: add_id_step_def UpdateChainID_zero_def Let_def uc1_def split: prod.splits)
    show ?thesis using False
      by (simp add: step add_id_typed updateTypeEltGet_not_None uc1_def)
  qed
qed

text \<open>
  C3, as stated, fails: \<^verbatim>\<open>add(updates)\<close>, the builder that \<^verbatim>\<open>queue.chainGet\<close> calls, never
  looks at the identity of an update. For the messages of two different conversations
  it keeps both, so the chain has length 2 and not 1.
\<close>

theorem add_keeps_other_identity:
  "updateIDsGet msgA \<noteq> updateIDsGet msgB
   \<and> updates (add UpdateChain_zero [msgA, msgB]) = [msgA, msgB]
   \<and> length (updates (add UpdateChain_zero [msgA, msgB])) = 2"
  by (simp add: msgA_def msgB_def add_step_def UpdateChain_zero_def updateTypeEltGet_def
      updateIDsGet_def)

text \<open>
  C3, amended: \<^verbatim>\<open>add(updates)\<close> on an empty chain takes the type of the first update
  whose type is known and keeps exactly the updates of that type, in their order, with
  no test of the identity. The test of the identity is made only by the other builder
  \<^verbatim>\<open>add(chatID, userID, updates)\<close>, which compares every update of the chain's type with
  the identity it was called with (not with the identity of the first update) and keeps
  the ones that agree.
\<close>

theorem add_filters_by_type:
  "add UpdateChain_zero us =
     (case filter (\<lambda>u. updateTypeEltGet u \<noteq> UpdateTypeUnknown) us of
        [] \<Rightarrow> UpdateChain_zero
      | c # _ \<Rightarrow> \<lparr>updateType = updateTypeEltGet c,
                  updates = filter (\<lambda>u. updateTypeEltGet u = updateTypeEltGet c) us\<rparr>)
   \<and> add_id cid uid UpdateChainID_zero us =
     (case filter (\<lambda>u. updateTypeEltGet u \<noteq> UpdateTypeUnknown) us of
        [] \<Rightarrow> UpdateChainID_zero
      | c # _ \<Rightarrow> \<lparr>updateType = updateTypeEltGet c,
                  updates = filter (\<lambda>u. updateTypeEltGet u = updateTypeEltGet c
                                       \<and> updateIDsGet u = (cid, uid)) us,
                  uc_chatID = cid, uc_userID = uid, uc_userName = updateUserNameGet c\<rparr>)"
  using add_zero [of us] add_id_zero [of cid uid us] by simp

theorem add_filters_by_type_witness:
  "add UpdateChain_zero [msgA, msgA, cbA, msgB] =
     \<lparr>updateType = UpdateTypeMessage, updates = [msgA, msgA, msgB]\<rparr>
   \<and> add_id 10 100 UpdateChainID_zero [msgA, msgA, cbA, msgB] =
     \<lparr>updateType = UpdateTypeMessage, updates = [msgA, msgA],
      uc_chatID = 10, uc_userID = 100, uc_userName = ''ann''\<rparr>"
  using add_filters_by_type [of "[msgA, msgA, cbA, msgB]" 10 100]
  by (simp add: msgA_def msgB_def cbA_def updateTypeEltGet_def updateIDsGet_def
      updateUserNameGet_def)

subsection \<open>Session states\<close>



lemma stateSwitch_undeclared:
  "ns \<noteq> sessionBreak \<Longrightarrow> ns \<noteq> sessionDestroy \<Longrightarrow> States (description t) ns = None \<Longrightarrow>
   stateSwitch (Suc k) t s ns mid w = Some (Inl ErrDescriptionStateMissing, w)"
  by simp




subsection \<open>Slots and the stored state\<close>

lemma sessGet_absent:
  "sess_hash w (chat, user) = None \<Longrightarrow>
   sessGet chat user w =
     (if redis_failing w HGet sessionKey then Inl (RedisError HGet sessionKey)
      else Inr (data_zero, False))"
  by (simp add: sessGet_def)

lemma sessGet_present:
  "sess_hash w (chat, user) = Some d \<Longrightarrow> \<not> redis_failing w HGet sessionKey \<Longrightarrow>
   sessGet chat user w = Inr (d, True)"
  by (simp add: sessGet_def)

lemma sessSave_ok:
  "\<not> redis_failing w HSet sessionKey \<Longrightarrow>
   sessSave chat user d w = (Inr (), w\<lparr>sess_hash := (sess_hash w)((chat, user) \<mapsto> d)\<rparr>)"
  by (simp add: sessSave_def)

text \<open>
  C7: when the conversation has no session in the store, \<^verbatim>\<open>SlotSave\<close>, \<^verbatim>\<open>SlotGet\<close> and
  \<^verbatim>\<open>SlotDel\<close> all fail and leave the world as it was, so none of them creates a session;
  the error is "session does not exist" whenever the read of the store itself worked
  (otherwise it is the error of the read).
\<close>

theorem slot_ops_need_session:
  assumes "sess_hash w (chatID s, userID s) = None"
  shows "SlotSave enc s slot v w
           = (Inl (if redis_failing w HGet sessionKey then RedisError HGet sessionKey
                   else Errorf ''session does not exist''), w)
       \<and> SlotGet dec s slot w
           = Inl (if redis_failing w HGet sessionKey then RedisError HGet sessionKey
                  else Errorf ''session does not exist'')
       \<and> SlotDel s slot w
           = (Inl (if redis_failing w HGet sessionKey then RedisError HGet sessionKey
                   else Errorf ''session does not exist''), w)"
  using assms by (simp add: SlotSave_def SlotGet_def SlotDel_def sessGet_absent)

theorem slot_ops_need_session_witness:
  "sess_hash world0 (chatID sessA, userID sessA) = None
   \<and> SlotSave raw_enc sessA ''age'' [42] world0 = (Inl (Errorf ''session does not exist''), world0)
   \<and> SlotGet raw_dec sessA ''age'' world0 = Inl (Errorf ''session does not exist'')
   \<and> SlotDel sessA ''age'' world0 = (Inl (Errorf ''session does not exist''), world0)"
proof -
  have h: "sess_hash world0 (chatID sessA, userID sessA) = None"
    by (simp add: world0_def)
  have f: "\<not> redis_failing world0 HGet sessionKey"
    by (simp add: world0_def)
  show ?thesis
    using h f slot_ops_need_session [OF h, of raw_enc "''age''" "[42]" raw_dec]
    by simp
qed

text \<open>
  C8: when the conversation has a session and the store works, a value that the
  encoder accepts and the decoder gives back (a storable value) is returned by
  \<^verbatim>\<open>SlotGet\<close> after \<^verbatim>\<open>SlotSave\<close>, with \<^verbatim>\<open>true\<close>; and after \<^verbatim>\<open>SlotDel\<close> of the slot
  \<^verbatim>\<open>SlotGet\<close> returns \<^verbatim>\<open>false\<close> and writes no value.
\<close>

theorem slot_round_trip:
  assumes "sess_hash w (chatID s, userID s) = Some d"
    and "\<not> redis_failing w HGet sessionKey"
    and "\<not> redis_failing w HSet sessionKey"
    and "enc v = Inr b"
    and "dec b = Inr v"
  shows "fst (SlotSave enc s slot v w) = Inr ()
       \<and> SlotGet dec s slot (snd (SlotSave enc s slot v w)) = Inr (True, Some v)
       \<and> fst (SlotDel s slot w) = Inr ()
       \<and> SlotGet dec s slot (snd (SlotDel s slot w)) = Inr (False, None)"
proof -
  let ?k = "(chatID s, userID s)"
  have save: "SlotSave enc s slot v w =
      (Inr (), w\<lparr>sess_hash := (sess_hash w)(?k \<mapsto> d\<lparr>data_Slots := (data_Slots d)(slot \<mapsto> b)\<rparr>)\<rparr>)"
    using assms by (simp add: SlotSave_def sessGet_present sessSave_ok)
  have del: "SlotDel s slot w =
      (Inr (), w\<lparr>sess_hash := (sess_hash w)(?k \<mapsto> d\<lparr>data_Slots := (data_Slots d)(slot := None)\<rparr>)\<rparr>)"
    using assms by (simp add: SlotDel_def sessGet_present sessSave_ok)
  have get1: "SlotGet dec s slot (snd (SlotSave enc s slot v w)) = Inr (True, Some v)"
    using assms by (simp add: save SlotGet_def sessGet_def)
  have get2: "SlotGet dec s slot (snd (SlotDel s slot w)) = Inr (False, None)"
    using assms by (simp add: del SlotGet_def sessGet_def)
  show ?thesis
    using get1 get2 by (simp add: save del)
qed

theorem slot_round_trip_witness:
  "sess_hash world1 (chatID sessA, userID sessA)
     = Some \<lparr>data_State = ''user:welcome'', data_Slots = [''age'' \<mapsto> [42]]\<rparr>
   \<and> raw_enc [1, 2, 3] = Inr [1, 2, 3]
   \<and> raw_dec [1, 2, 3] = Inr [1, 2, 3]
   \<and> fst (SlotSave raw_enc sessA ''x'' [1, 2, 3] world1) = Inr ()
   \<and> SlotGet raw_dec sessA ''x'' (snd (SlotSave raw_enc sessA ''x'' [1, 2, 3] world1))
       = Inr (True, Some [1, 2, 3])
   \<and> fst (SlotDel sessA ''x'' world1) = Inr ()
   \<and> SlotGet raw_dec sessA ''x'' (snd (SlotDel sessA ''x'' world1)) = Inr (False, None)"
proof -
  have h1: "sess_hash world1 (chatID sessA, userID sessA)
     = Some \<lparr>data_State = ''user:welcome'', data_Slots = [''age'' \<mapsto> [42]]\<rparr>"
    by (simp add: world1_def world0_def sessA_def)
  have h2: "\<not> redis_failing world1 HGet sessionKey"
    by (simp add: world1_def world0_def)
  have h3: "\<not> redis_failing world1 HSet sessionKey"
    by (simp add: world1_def world0_def)
  have h4: "raw_enc [1, 2, 3] = Inr [1, 2, 3]"
    by (simp add: raw_enc_def)
  have h5: "raw_dec [1, 2, 3] = Inr [1, 2, 3]"
    by (simp add: raw_dec_def)
  show ?thesis
    using h1 h2 h3 h4 h5
      slot_round_trip [where w = world1 and s = sessA and enc = raw_enc and dec = raw_dec
        and v = "[1, 2, 3]" and b = "[1, 2, 3]" and slot = "''x''"]
    by simp
qed

text \<open>
  C9: when the store works, \<^verbatim>\<open>stateSet\<close> succeeds and changes nothing but the session
  of the conversation: with no session before, the session is the given state with an
  empty map of slots; with a session before, it is that session with the state
  replaced and the slots as they were.
\<close>

theorem stateSet_frame:
  assumes "\<not> redis_failing w HGet sessionKey"
    and "\<not> redis_failing w HSet sessionKey"
  shows "stateSet s st w =
     (Inr (), w\<lparr>sess_hash := (sess_hash w)((chatID s, userID s) \<mapsto>
        (case sess_hash w (chatID s, userID s) of
           None \<Rightarrow> \<lparr>data_State = state st, data_Slots = Map.empty\<rparr>
         | Some d \<Rightarrow> d\<lparr>data_State := state st\<rparr>))\<rparr>)"
  using assms
  by (cases "sess_hash w (chatID s, userID s)")
     (simp_all add: stateSet_def sessGet_def sessSave_def)

theorem stateSet_frame_witness:
  "\<not> redis_failing world0 HGet sessionKey \<and> \<not> redis_failing world0 HSet sessionKey
   \<and> \<not> redis_failing world1 HGet sessionKey \<and> \<not> redis_failing world1 HSet sessionKey
   \<and> fst (stateSet sessA (SessState ''menu'') world0) = Inr ()
   \<and> sess_hash (snd (stateSet sessA (SessState ''menu'') world0)) (10, 100)
       = Some \<lparr>data_State = ''user:menu'', data_Slots = Map.empty\<rparr>
   \<and> fst (stateSet sessA (SessState ''menu'') world1) = Inr ()
   \<and> sess_hash (snd (stateSet sessA (SessState ''menu'') world1)) (10, 100)
       = Some \<lparr>data_State = ''user:menu'', data_Slots = [''age'' \<mapsto> [42]]\<rparr>"
proof -
  have a0: "\<not> redis_failing world0 HGet sessionKey" and b0: "\<not> redis_failing world0 HSet sessionKey"
    by (simp_all add: world0_def)
  have a1: "\<not> redis_failing world1 HGet sessionKey" and b1: "\<not> redis_failing world1 HSet sessionKey"
    by (simp_all add: world1_def world0_def)
  have s0: "sess_hash world0 (10, 100) = None"
    by (simp add: world0_def)
  have s1: "sess_hash world1 (10, 100)
      = Some \<lparr>data_State = ''user:welcome'', data_Slots = [''age'' \<mapsto> [42]]\<rparr>"
    by (simp add: world1_def)
  show ?thesis
    using a0 b0 a1 b1 stateSet_frame [OF a0 b0, of sessA "SessState ''menu''"]
      stateSet_frame [OF a1 b1, of sessA "SessState ''menu''"]
    by (simp add: sessA_def s0 s1 SessState_def)
qed

subsection \<open>Terminal states and undeclared states\<close>

lemma break_not_destroy: "sessionBreak \<noteq> sessionDestroy"
  by (simp add: sessionBreak_def sessionDestroy_def)

lemma destroy_ok:
  assumes "\<not> redis_failing w HDel sessionKey"
    and "\<not> redis_failing w HDel queueMetaKey"
    and "\<not> redis_failing w Del queueUpdatesKey"
  shows "destroy s w =
     (Inr (), w\<lparr>sess_hash := (sess_hash w)((chatID s, userID s) := None),
                meta_hash := AList.delete (chatID s, userID s) (meta_hash w),
                updates_list := (updates_list w)((chatID s, userID s) := [])\<rparr>)"
  using assms
  by (simp add: destroy_def sessDel_def queueMetaDel_def queueUpdateDel_def Let_def)

lemma stateCallbackProcessing_terminal:
  assumes "callbackSessionStateGet unmarshal (updateChain s) = Inr (cbs, button)"
    and "MessagesIDGet (updateChain s) = Inr mid"
    and "cbs = sessionBreak \<or> cbs = sessionDestroy"
  shows "stateCallbackProcessing fuel unmarshal t s w = stateSwitch fuel t s cbs mid w"
  using assms by (auto simp add: stateCallbackProcessing_def)

lemma stateCallbackProcessing_undeclared:
  assumes "callbackSessionStateGet unmarshal (updateChain s) = Inr (cbs, button)"
    and "cbs \<noteq> sessionBreak" and "cbs \<noteq> sessionDestroy"
    and "States (description t) cbs = None"
  shows "stateCallbackProcessing fuel unmarshal t s w = Some (Inl ErrDescriptionStateMissing, w)"
  using assms by (simp add: stateCallbackProcessing_def)

text \<open>
  C4: \<^verbatim>\<open>stateSwitch\<close> compares the target state with the two reserved states before it
  looks into the table of states, whatever that table holds: the break state returns
  \<^verbatim>\<open>nil\<close> and leaves the world as it is; the destroy state returns what \<^verbatim>\<open>destroy\<close>
  returns, which with a working store removes the session, the meta and the queued
  updates of the conversation; any other state with no entry in the table is the error
  \<^verbatim>\<open>ErrDescriptionStateMissing\<close> in an unchanged world. The same holds for the state
  decoded from the payload of a callback by \<^verbatim>\<open>stateCallbackProcessing\<close>.
\<close>

theorem stateSwitch_terminals_first:
  "stateSwitch (Suc n) t s sessionBreak mid w = Some (Inr (), w)
   \<and> stateSwitch (Suc n) t s sessionDestroy mid w = Some (destroy s w)
   \<and> (\<not> redis_failing w HDel sessionKey \<and> \<not> redis_failing w HDel queueMetaKey
        \<and> \<not> redis_failing w Del queueUpdatesKey \<longrightarrow>
      destroy s w =
        (Inr (), w\<lparr>sess_hash := (sess_hash w)((chatID s, userID s) := None),
                   meta_hash := AList.delete (chatID s, userID s) (meta_hash w),
                   updates_list := (updates_list w)((chatID s, userID s) := [])\<rparr>))
   \<and> (ns \<noteq> sessionBreak \<and> ns \<noteq> sessionDestroy \<and> States (description t) ns = None \<longrightarrow>
      stateSwitch (Suc n) t s ns mid w = Some (Inl ErrDescriptionStateMissing, w))
   \<and> (callbackSessionStateGet unmarshal (updateChain s) = Inr (cbs, button)
        \<and> MessagesIDGet (updateChain s) = Inr cmid
        \<and> (cbs = sessionBreak \<or> cbs = sessionDestroy \<or> States (description t) cbs = None) \<longrightarrow>
      stateCallbackProcessing (Suc n) unmarshal t s w =
        (if cbs = sessionBreak then Some (Inr (), w)
         else if cbs = sessionDestroy then Some (destroy s w)
         else Some (Inl ErrDescriptionStateMissing, w)))"
proof -
  have a: "stateSwitch (Suc n) t s sessionBreak mid w = Some (Inr (), w)"
    by simp
  have b: "stateSwitch (Suc n) t s sessionDestroy mid w = Some (destroy s w)"
    using break_not_destroy by simp
  have c: "\<not> redis_failing w HDel sessionKey \<and> \<not> redis_failing w HDel queueMetaKey
        \<and> \<not> redis_failing w Del queueUpdatesKey \<longrightarrow>
      destroy s w =
        (Inr (), w\<lparr>sess_hash := (sess_hash w)((chatID s, userID s) := None),
                   meta_hash := AList.delete (chatID s, userID s) (meta_hash w),
                   updates_list := (updates_list w)((chatID s, userID s) := [])\<rparr>)"
    using destroy_ok by blast
  have d: "ns \<noteq> sessionBreak \<and> ns \<noteq> sessionDestroy \<and> States (description t) ns = None \<longrightarrow>
      stateSwitch (Suc n) t s ns mid w = Some (Inl ErrDescriptionStateMissing, w)"
    using stateSwitch_undeclared by blast
  have e: "callbackSessionStateGet unmarshal (updateChain s) = Inr (cbs, button)
        \<and> MessagesIDGet (updateChain s) = Inr cmid
        \<and> (cbs = sessionBreak \<or> cbs = sessionDestroy \<or> States (description t) cbs = None) \<longrightarrow>
      stateCallbackProcessing (Suc n) unmarshal t s w =
        (if cbs = sessionBreak then Some (Inr (), w)
         else if cbs = sessionDestroy then Some (destroy s w)
         else Some (Inl ErrDescriptionStateMissing, w))"
  proof (intro impI, elim conjE)
    assume g: "callbackSessionStateGet unmarshal (updateChain s) = Inr (cbs, button)"
      and m: "MessagesIDGet (updateChain s) = Inr cmid"
      and o: "cbs = sessionBreak \<or> cbs = sessionDestroy \<or> States (description t) cbs = None"
    show "stateCallbackProcessing (Suc n) unmarshal t s w =
        (if cbs = sessionBreak then Some (Inr (), w)
         else if cbs = sessionDestroy then Some (destroy s w)
         else Some (Inl ErrDescriptionStateMissing, w))"
    proof (cases "cbs = sessionBreak \<or> cbs = sessionDestroy")
      case True
      have "stateCallbackProcessing (Suc n) unmarshal t s w = stateSwitch (Suc n) t s cbs cmid w"
        using stateCallbackProcessing_terminal [OF g m True] .
      then show ?thesis
        using True break_not_destroy by auto
    next
      case False
      then show ?thesis
        using o stateCallbackProcessing_undeclared [OF g] by simp
    qed
  qed
  show ?thesis
    using a b c d e by blast
qed

theorem stateSwitch_terminals_first_witness:
  "stateSwitch (Suc 0) telegram1 sessA sessionBreak 5 world2 = Some (Inr (), world2)
   \<and> stateSwitch (Suc 0) telegram1 sessA sessionDestroy 5 world2 = Some (destroy sessA world2)
   \<and> \<not> redis_failing world2 HDel sessionKey \<and> \<not> redis_failing world2 HDel queueMetaKey
   \<and> \<not> redis_failing world2 Del queueUpdatesKey
   \<and> fst (destroy sessA world2) = Inr ()
   \<and> sess_hash (snd (destroy sessA world2)) (10, 100) = None
   \<and> meta_hash (snd (destroy sessA world2)) = []
   \<and> updates_list (snd (destroy sessA world2)) (10, 100) = []
   \<and> SessState ''ghost'' \<noteq> sessionBreak \<and> SessState ''ghost'' \<noteq> sessionDestroy
   \<and> States (description telegram1) (SessState ''ghost'') = None
   \<and> stateSwitch (Suc 0) telegram1 sessA (SessState ''ghost'') 5 world2
       = Some (Inl ErrDescriptionStateMissing, world2)
   \<and> callbackSessionStateGet json_fix (updateChain (sessPress ''stay'')) = Inr (sessionBreak, '''')
   \<and> MessagesIDGet (updateChain (sessPress ''stay'')) = Inr 7
   \<and> stateCallbackProcessing (Suc 0) json_fix telegram1 (sessPress ''stay'') world2
       = Some (Inr (), world2)
   \<and> callbackSessionStateGet json_fix (updateChain (sessPress ''kill'')) = Inr (sessionDestroy, '''')
   \<and> MessagesIDGet (updateChain (sessPress ''kill'')) = Inr 7
   \<and> stateCallbackProcessing (Suc 0) json_fix telegram1 (sessPress ''kill'') world2
       = Some (destroy (sessPress ''kill'') world2)
   \<and> callbackSessionStateGet json_fix (updateChain (sessPress ''next''))
       = Inr (SessState ''ghost'', ''1'')
   \<and> MessagesIDGet (updateChain (sessPress ''next'')) = Inr 7
   \<and> stateCallbackProcessing (Suc 0) json_fix telegram1 (sessPress ''next'') world2
       = Some (Inl ErrDescriptionStateMissing, world2)"
proof -
  have f: "\<not> redis_failing world2 HDel sessionKey \<and> \<not> redis_failing world2 HDel queueMetaKey
      \<and> \<not> redis_failing world2 Del queueUpdatesKey"
    by (simp add: world2_def world1_def world0_def)
  have g: "SessState ''ghost'' \<noteq> sessionBreak \<and> SessState ''ghost'' \<noteq> sessionDestroy
      \<and> States (description telegram1) (SessState ''ghost'') = None"
    by (simp add: SessState_def sessionBreak_def sessionDestroy_def telegram1_def)
  have k: "callbackSessionStateGet json_fix (updateChain (sessPress ''kill'')) = Inr (sessionDestroy, '''')
      \<and> MessagesIDGet (updateChain (sessPress ''kill'')) = Inr 7"
    by (simp add: callbackSessionStateGet_def callbackDataGet_def MessagesIDGet_def sessPress_def
        press_def json_fix_def sessionDestroy_def)
  have y: "callbackSessionStateGet json_fix (updateChain (sessPress ''stay'')) = Inr (sessionBreak, '''')
      \<and> MessagesIDGet (updateChain (sessPress ''stay'')) = Inr 7"
    by (simp add: callbackSessionStateGet_def callbackDataGet_def MessagesIDGet_def sessPress_def
        press_def json_fix_def sessionBreak_def)
  have x: "callbackSessionStateGet json_fix (updateChain (sessPress ''next''))
        = Inr (SessState ''ghost'', ''1'')
      \<and> MessagesIDGet (updateChain (sessPress ''next'')) = Inr 7"
    by (simp add: callbackSessionStateGet_def callbackDataGet_def MessagesIDGet_def sessPress_def
        press_def json_fix_def SessState_def)
  have m: "meta_hash world2 = [((10, 100), 500)]" "chatID sessA = 10" "userID sessA = 100"
    by (simp_all add: world2_def sessA_def)
  note t1 = stateSwitch_terminals_first [where n = 0 and t = telegram1 and s = sessA and mid = 5
      and w = world2 and ns = "SessState ''ghost''" and unmarshal = json_fix
      and cbs = sessionBreak and button = "''''" and cmid = 0]
  note t0 = stateSwitch_terminals_first [where n = 0 and t = telegram1 and s = "sessPress ''stay''"
      and mid = 5 and w = world2 and ns = "SessState ''ghost''" and unmarshal = json_fix
      and cbs = sessionBreak and button = "''''" and cmid = 7]
  note t2 = stateSwitch_terminals_first [where n = 0 and t = telegram1 and s = "sessPress ''kill''"
      and mid = 5 and w = world2 and ns = "SessState ''ghost''" and unmarshal = json_fix
      and cbs = sessionDestroy and button = "''''" and cmid = 7]
  note t3 = stateSwitch_terminals_first [where n = 0 and t = telegram1 and s = "sessPress ''next''"
      and mid = 5 and w = world2 and ns = "SessState ''ghost''" and unmarshal = json_fix
      and cbs = "SessState ''ghost''" and button = "''1''" and cmid = 7]
  have d1: "fst (destroy sessA world2) = Inr ()
      \<and> sess_hash (snd (destroy sessA world2)) (10, 100) = None
      \<and> meta_hash (snd (destroy sessA world2)) = []
      \<and> updates_list (snd (destroy sessA world2)) (10, 100) = []"
    using t1 f by (simp add: m)
  have s1: "stateSwitch (Suc 0) telegram1 sessA sessionBreak 5 world2 = Some (Inr (), world2)
      \<and> stateSwitch (Suc 0) telegram1 sessA sessionDestroy 5 world2 = Some (destroy sessA world2)
      \<and> stateSwitch (Suc 0) telegram1 sessA (SessState ''ghost'') 5 world2
          = Some (Inl ErrDescriptionStateMissing, world2)"
    using t1 g by blast
  have c0: "stateCallbackProcessing (Suc 0) json_fix telegram1 (sessPress ''stay'') world2
       = Some (Inr (), world2)"
    using t0 y by auto
  have c2: "stateCallbackProcessing (Suc 0) json_fix telegram1 (sessPress ''kill'') world2
       = Some (destroy (sessPress ''kill'') world2)"
    using t2 k break_not_destroy by auto
  have c3: "stateCallbackProcessing (Suc 0) json_fix telegram1 (sessPress ''next'') world2
       = Some (Inl ErrDescriptionStateMissing, world2)"
    using t3 x g by auto
  show ?thesis
    using f g k x y d1 s1 c0 c2 c3 by blast
qed

subsection \<open>Waiting states and automatic switching\<close>

lemma stateSwitch_waiting_paths:
  assumes "ns \<noteq> sessionBreak" and "ns \<noteq> sessionDestroy"
    and "States (description t) ns = Some st"
    and "MessageHandler st \<noteq> None"
  shows "stateSwitch (Suc n) t s ns mid w =
     (case stateSet s ns w of
        (Inl err, w1) \<Rightarrow> Some (Inl err, w1)
      | (Inr u, w1) \<Rightarrow>
          (case StateHandler st of
             None \<Rightarrow> Some (Inr (), w1)
           | Some h \<Rightarrow>
               (case h s w1 of
                  (Inr hr, w2) \<Rightarrow>
                    Some (stateSwitch_send st s ns (if hr_StickMessage hr then mid else 0) hr w2)
                | (Inl err, w2) \<Rightarrow>
                    (case ErrorHandler (description t) of
                       None \<Rightarrow> Some (Inl err, w2)
                     | Some eh \<Rightarrow>
                         (case eh s err w2 of
                            (Inl err', w3) \<Rightarrow> Some (Inl err', w3)
                          | (Inr r, w3) \<Rightarrow> stateSwitch n t s r 0 w3)))))"
proof -
  obtain r1 w1 where ss: "stateSet s ns w = (r1, w1)"
    by (cases "stateSet s ns w")
  show ?thesis
  proof (cases r1)
    case (Inl err)
    with assms ss show ?thesis by simp
  next
    case r1ok: (Inr u)
    show ?thesis
    proof (cases "StateHandler st")
      case None
      with assms ss r1ok show ?thesis by simp
    next
      case (Some h)
      obtain r2 w2 where hs: "h s w1 = (r2, w2)"
        by (cases "h s w1")
      show ?thesis
      proof (cases r2)
        case (Inl err)
        with assms ss r1ok Some hs show ?thesis by simp
      next
        case (Inr hr)
        obtain r4 w4 where sb:
          "stateSwitch_send st s ns (if hr_StickMessage hr then mid else 0) hr w2 = (r4, w4)"
          by (cases "stateSwitch_send st s ns (if hr_StickMessage hr then mid else 0) hr w2")
        show ?thesis
        proof (cases r4)
          case (Inl err)
          with assms ss r1ok Some hs Inr sb show ?thesis by simp
        next
          case r4ok: (Inr u4)
          with assms ss r1ok Some hs Inr sb show ?thesis by auto
        qed
      qed
    qed
  qed
qed

lemma stateSwitch_waiting_no_error_handler:
  assumes "ns \<noteq> sessionBreak" and "ns \<noteq> sessionDestroy"
    and "States (description t) ns = Some st"
    and "MessageHandler st \<noteq> None"
    and "ErrorHandler (description t) = None"
  shows "stateSwitch (Suc n) t s ns mid w = stateSwitch (Suc 0) t s ns mid w
       \<and> stateSwitch (Suc 0) t s ns mid w \<noteq> None"
  unfolding stateSwitch_waiting_paths [OF assms(1-4)]
  using assms(5) by (simp split: prod.splits sum.splits option.splits)

text \<open>
  C5, as stated, fails: a state with a message handler does not always stop. In the bot
  below the state \<^verbatim>\<open>SessState("bad")\<close> has a message handler, its state handler fails
  and the error handler of the bot names \<^verbatim>\<open>SessState("b")\<close>. One unit of fuel does not
  suffice for \<^verbatim>\<open>stateSwitch\<close> into \<^verbatim>\<open>SessState("bad")\<close>, since it calls itself; with
  enough fuel the session ends in the state \<^verbatim>\<open>SessState("b")\<close> and the message of that
  state has been sent.
\<close>

theorem waiting_state_left_by_error_handler:
  "States (description telegram_err) (SessState ''bad'') = Some state_bad
   \<and> MessageHandler state_bad \<noteq> None
   \<and> stateSwitch (Suc 0) telegram_err sessA (SessState ''bad'') 0 world0 = None
   \<and> map_option (\<lambda>r. (fst r, bot_sent (snd r), sess_hash (snd r) (10, 100)))
        (stateSwitch (Suc (Suc (Suc 0))) telegram_err sessA (SessState ''bad'') 0 world0)
       = Some (Inr (), [NewMessage 10 (say_data ''two'' (SessState ''b''))],
               Some \<lparr>data_State = ''user:b'', data_Slots = Map.empty\<rparr>)"
  by (simp add: telegram_err_def state_bad_def state_say_def hr_say_def say_data_def sessA_def
      world0_def stateSet_def sessGet_def sessSave_def stateSwitch_send_def SendMessage_def
      ChatIDGet_def SessState_def sessionBreak_def sessionDestroy_def Let_def)

text \<open>
  C5, amended: for a declared state with a message handler \<^verbatim>\<open>stateSwitch\<close> puts the
  session into the state and, when the state handler returns a result, sends the message
  (if any, with the sent handler) and returns; the next state of the result plays no
  part, so \<^verbatim>\<open>stateSwitch\<close> never goes on to it. It also returns when the store fails, when
  the state has no state handler, and when the state handler fails and no error handler
  is declared or the error handler fails. The one way on is the error path: when the
  state handler fails and the declared error handler returns a state, \<^verbatim>\<open>stateSwitch\<close>
  switches to that state, with the message id 0. So in a bot without an error handler
  one unit of fuel always suffices for such a state and more fuel changes nothing.
\<close>

theorem stateSwitch_waiting_state:
  assumes "ns \<noteq> sessionBreak" and "ns \<noteq> sessionDestroy"
    and "States (description t) ns = Some st"
    and "MessageHandler st \<noteq> None"
  shows "stateSwitch (Suc n) t s ns mid w =
     (case stateSet s ns w of
        (Inl err, w1) \<Rightarrow> Some (Inl err, w1)
      | (Inr u, w1) \<Rightarrow>
          (case StateHandler st of
             None \<Rightarrow> Some (Inr (), w1)
           | Some h \<Rightarrow>
               (case h s w1 of
                  (Inr hr, w2) \<Rightarrow>
                    Some (stateSwitch_send st s ns (if hr_StickMessage hr then mid else 0) hr w2)
                | (Inl err, w2) \<Rightarrow>
                    (case ErrorHandler (description t) of
                       None \<Rightarrow> Some (Inl err, w2)
                     | Some eh \<Rightarrow>
                         (case eh s err w2 of
                            (Inl err', w3) \<Rightarrow> Some (Inl err', w3)
                          | (Inr r, w3) \<Rightarrow> stateSwitch n t s r 0 w3)))))
   \<and> (ErrorHandler (description t) = None \<longrightarrow>
        stateSwitch (Suc n) t s ns mid w = stateSwitch (Suc 0) t s ns mid w
        \<and> stateSwitch (Suc 0) t s ns mid w \<noteq> None)"
  using stateSwitch_waiting_paths [OF assms, of n s mid w]
    stateSwitch_waiting_no_error_handler [OF assms, of n s mid w]
  by blast

theorem stateSwitch_waiting_state_witness:
  "SessState ''ask'' \<noteq> sessionBreak \<and> SessState ''ask'' \<noteq> sessionDestroy
   \<and> States (description telegram_ask) (SessState ''ask'') = Some state_ask
   \<and> MessageHandler state_ask \<noteq> None
   \<and> ErrorHandler (description telegram_ask) = None
   \<and> hr_NextState (hr_say ''Name?'' (SessState ''ghost'') False) = SessState ''ghost''
   \<and> States (description telegram_ask) (SessState ''ghost'') = None
   \<and> stateSwitch (Suc (Suc (Suc 0))) telegram_ask sessA (SessState ''ask'') 0 world0
       = stateSwitch (Suc 0) telegram_ask sessA (SessState ''ask'') 0 world0
   \<and> map_option (\<lambda>r. (fst r, bot_sent (snd r), sess_hash (snd r) (10, 100)))
        (stateSwitch (Suc 0) telegram_ask sessA (SessState ''ask'') 0 world0)
       = Some (Inr (), [NewMessage 10 (say_data ''Name?'' (SessState ''ask''))],
               Some \<lparr>data_State = ''user:ask'', data_Slots = Map.empty\<rparr>)
   \<and> SessState ''bad'' \<noteq> sessionBreak \<and> SessState ''bad'' \<noteq> sessionDestroy
   \<and> States (description telegram_err) (SessState ''bad'') = Some state_bad
   \<and> MessageHandler state_bad \<noteq> None
   \<and> stateSwitch (Suc (Suc (Suc 0))) telegram_err sessA (SessState ''bad'') 0 world0
       = stateSwitch (Suc (Suc 0)) telegram_err sessA (SessState ''b'') 0
           (snd (stateSet sessA (SessState ''bad'') world0))"
proof -
  have a: "SessState ''ask'' \<noteq> sessionBreak" and b: "SessState ''ask'' \<noteq> sessionDestroy"
    by (simp_all add: SessState_def sessionBreak_def sessionDestroy_def)
  have c: "States (description telegram_ask) (SessState ''ask'') = Some state_ask"
    by (simp add: telegram_ask_def)
  have d: "MessageHandler state_ask \<noteq> None"
    by (simp add: state_ask_def)
  have e: "ErrorHandler (description telegram_ask) = None"
    by (simp add: telegram_ask_def)
  have k: "States (description telegram_ask) (SessState ''ghost'') = None"
    by (simp add: telegram_ask_def SessState_def)
  note ask3 = stateSwitch_waiting_state [OF a b c d, of "Suc (Suc 0)" sessA 0 world0]
  have same: "stateSwitch (Suc (Suc (Suc 0))) telegram_ask sessA (SessState ''ask'') 0 world0
       = stateSwitch (Suc 0) telegram_ask sessA (SessState ''ask'') 0 world0"
    using ask3 e by blast
  note ask1 = stateSwitch_waiting_state [OF a b c d, of 0 sessA 0 world0, THEN conjunct1]
  have v: "map_option (\<lambda>r. (fst r, bot_sent (snd r), sess_hash (snd r) (10, 100)))
        (stateSwitch (Suc 0) telegram_ask sessA (SessState ''ask'') 0 world0)
       = Some (Inr (), [NewMessage 10 (say_data ''Name?'' (SessState ''ask''))],
               Some \<lparr>data_State = ''user:ask'', data_Slots = Map.empty\<rparr>)"
    unfolding ask1
    by (simp add: stateSwitch_send_def SendMessage_def ChatIDGet_def hr_say_def state_ask_def
        state_say_def say_data_def world0_def sessA_def stateSet_def sessGet_def sessSave_def
        SessState_def Let_def)
  have a': "SessState ''bad'' \<noteq> sessionBreak" and b': "SessState ''bad'' \<noteq> sessionDestroy"
    by (simp_all add: SessState_def sessionBreak_def sessionDestroy_def)
  have c': "States (description telegram_err) (SessState ''bad'') = Some state_bad"
    by (simp add: telegram_err_def SessState_def)
  have d': "MessageHandler state_bad \<noteq> None"
    by (simp add: state_bad_def)
  note bad3 = stateSwitch_waiting_state [OF a' b' c' d', of "Suc (Suc 0)" sessA 0 world0,
      THEN conjunct1]
  have redirect: "stateSwitch (Suc (Suc (Suc 0))) telegram_err sessA (SessState ''bad'') 0 world0
       = stateSwitch (Suc (Suc 0)) telegram_err sessA (SessState ''b'') 0
           (snd (stateSet sessA (SessState ''bad'') world0))"
    unfolding bad3
    by (simp add: state_bad_def telegram_err_def stateSet_def sessGet_def sessSave_def
        world0_def sessA_def split: prod.splits sum.splits)
  have nx: "hr_NextState (hr_say ''Name?'' (SessState ''ghost'') False) = SessState ''ghost''"
    by (simp add: hr_say_def)
  show ?thesis
    using a b c d e nx k same v a' b' c' d' redirect by blast
qed

lemma stateSwitch_advance:
  assumes "ns \<noteq> sessionBreak" and "ns \<noteq> sessionDestroy"
    and "States (description t) ns = Some st"
    and "MessageHandler st = None"
    and "stateSet s ns w = (Inr (), w1)"
    and "StateHandler st = Some h"
    and "h s w1 = (Inr hr, w2)"
    and "stateSwitch_send st s ns (if hr_StickMessage hr then mid else 0) hr w2 = (Inr (), w4)"
  shows "stateSwitch (Suc n) t s ns mid w =
           stateSwitch n t s (hr_NextState hr) (if hr_StickMessage hr then mid else 0) w4"
  using assms by simp

lemma bot_sent_stateSet: "bot_sent (snd (stateSet s ns w)) = bot_sent w"
  by (simp add: stateSet_def sessGet_def sessSave_def Let_def split: option.splits)

lemma bot_sent_destroy: "bot_sent (snd (destroy s w)) = bot_sent w"
  by (simp add: destroy_def sessDel_def queueMetaDel_def queueUpdateDel_def Let_def)

lemma bot_sent_SendMessage:
  "mid \<noteq> 0 \<Longrightarrow>
   bot_sent (snd (SendMessage c mid d w)) = bot_sent w @ [NewEditMessageText c mid d]"
  by (simp add: SendMessage_def Let_def split: sum.splits)

lemma bot_sent_send_block:
  assumes quiet: "\<forall>sh msgs w0. SentHandler st = Some sh \<longrightarrow>
                    bot_sent (snd (sh s msgs w0)) = bot_sent w0"
    and mid: "mid \<noteq> 0"
  shows "\<exists>reqs. bot_sent (snd (stateSwitch_send st s ns mid hr w)) = bot_sent w @ reqs
           \<and> (\<forall>q \<in> set reqs. \<exists>d. q = NewEditMessageText (chatID s) mid d)"
proof (cases "length (hr_Message hr) > 0")
  case False
  then show ?thesis by (simp add: stateSwitch_send_def)
next
  case True
  let ?d = "\<lparr>smd_Message = hr_Message hr, smd_ParseMode = ParseModeMarkdown,
             smd_DisableWebPagePreview = False, smd_Buttons = hr_Buttons hr,
             smd_ButtonState = ns\<rparr>"
  obtain r w3 where sm: "SendMessage (ChatIDGet s) mid ?d w = (r, w3)"
    by (cases "SendMessage (ChatIDGet s) mid ?d w")
  have log: "bot_sent w3 = bot_sent w @ [NewEditMessageText (chatID s) mid ?d]"
    using bot_sent_SendMessage [OF mid, of "ChatIDGet s" ?d w] sm
    by (simp add: ChatIDGet_def)
  have "bot_sent (snd (stateSwitch_send st s ns mid hr w)) = bot_sent w3"
  proof (cases r)
    case (Inl err)
    then show ?thesis using True sm by (simp add: stateSwitch_send_def)
  next
    case (Inr msgs)
    show ?thesis
    proof (cases "SentHandler st")
      case None
      then show ?thesis using True sm Inr by (simp add: stateSwitch_send_def)
    next
      case (Some sh)
      then show ?thesis using True sm Inr quiet by (simp add: stateSwitch_send_def)
    qed
  qed
  then show ?thesis using log by simp
qed

lemma stick_chain:
  assumes sticky: "\<forall>ns st h w0. States (description t) ns = Some st \<and> StateHandler st = Some h \<longrightarrow>
             (\<exists>hr. fst (h s w0) = Inr hr \<and> hr_StickMessage hr)
             \<and> bot_sent (snd (h s w0)) = bot_sent w0"
    and quiet: "\<forall>ns st sh msgs w0. States (description t) ns = Some st \<and> SentHandler st = Some sh \<longrightarrow>
             bot_sent (snd (sh s msgs w0)) = bot_sent w0"
    and mid: "mid \<noteq> 0"
  shows "stateSwitch n t s ns mid w = Some (r, w') \<Longrightarrow>
         \<exists>reqs. bot_sent w' = bot_sent w @ reqs
           \<and> (\<forall>q \<in> set reqs. \<exists>d. q = NewEditMessageText (chatID s) mid d)"
proof (induction n arbitrary: ns w)
  case 0
  then show ?case by simp
next
  case (Suc n)
  note run = Suc.prems
  show ?case
  proof (cases "ns = sessionBreak")
    case True
    with run show ?thesis by simp
  next
    case nb: False
    show ?thesis
    proof (cases "ns = sessionDestroy")
      case True
      with nb run have "w' = snd (destroy s w)" by auto
      then show ?thesis by (simp add: bot_sent_destroy)
    next
      case nd: False
      show ?thesis
      proof (cases "States (description t) ns")
        case None
        with nb nd run show ?thesis by simp
      next
        case (Some st)
        obtain r1 w1 where ss: "stateSet s ns w = (r1, w1)"
          by (cases "stateSet s ns w")
        have l1: "bot_sent w1 = bot_sent w"
          using bot_sent_stateSet [of s ns w] ss by simp
        show ?thesis
        proof (cases r1)
          case (Inl err)
          with nb nd Some ss run have "w' = w1" by simp
          then show ?thesis using l1 by simp
        next
          case (Inr u)
          show ?thesis
          proof (cases "StateHandler st")
            case None
            with nb nd Some ss Inr run have "w' = w1" by simp
            then show ?thesis using l1 by simp
          next
            case sh: (Some h)
            obtain hr where hres: "fst (h s w1) = Inr hr" and stick: "hr_StickMessage hr"
              and l2: "bot_sent (snd (h s w1)) = bot_sent w1"
              using sticky Some sh by blast
            define w2 where "w2 = snd (h s w1)"
            have hrun: "h s w1 = (Inr hr, w2)"
              using hres by (simp add: w2_def prod_eq_iff)
            have q: "\<forall>sh msgs w0. SentHandler st = Some sh \<longrightarrow>
                       bot_sent (snd (sh s msgs w0)) = bot_sent w0"
              using quiet Some by blast
            obtain r4 w4 where sb: "stateSwitch_send st s ns mid hr w2 = (r4, w4)"
              by (cases "stateSwitch_send st s ns mid hr w2")
            obtain reqs where l3: "bot_sent w4 = bot_sent w2 @ reqs"
              and e3: "\<forall>q \<in> set reqs. \<exists>d. q = NewEditMessageText (chatID s) mid d"
              using bot_sent_send_block [OF q mid, of ns hr w2] sb by auto
            have l4: "bot_sent w4 = bot_sent w @ reqs"
              using l1 l2 l3 by (simp add: w2_def)
            show ?thesis
            proof (cases r4)
              case (Inl err)
              with nb nd Some ss Inr sh hrun stick sb run have "w' = w4" by simp
              then show ?thesis using l4 e3 by blast
            next
              case r4ok: (Inr u4)
              show ?thesis
              proof (cases "MessageHandler st")
                case (Some mh)
                with nb nd \<open>States (description t) ns = Some st\<close> ss Inr sh hrun stick sb r4ok run
                have "w' = w4" by simp
                then show ?thesis using l4 e3 by blast
              next
                case None
                with nb nd \<open>States (description t) ns = Some st\<close> ss Inr sh hrun stick sb r4ok run
                have "stateSwitch n t s (hr_NextState hr) mid w4 = Some (r, w')" by simp
                then obtain more where l5: "bot_sent w' = bot_sent w4 @ more"
                  and e5: "\<forall>q \<in> set more. \<exists>d. q = NewEditMessageText (chatID s) mid d"
                  using Suc.IH by blast
                have "bot_sent w' = bot_sent w @ (reqs @ more)"
                  using l4 l5 by simp
                moreover have "\<forall>q \<in> set (reqs @ more). \<exists>d. q = NewEditMessageText (chatID s) mid d"
                  using e3 e5 by auto
                ultimately show ?thesis by blast
              qed
            qed
          qed
        qed
      qed
    qed
  qed
qed

text \<open>
  C6, as stated, fails: the id handed to the recursive call is never taken from the
  message just sent. In the bot below both states ask for stick; entered with the
  message id 0 (as after a command or a message), the first state sends a new message,
  for which the bot answers with the id 77, and the second state sends a second new
  message instead of an edit of the message 77.
\<close>

theorem stick_chain_from_zero_sends_new:
  "hr_StickMessage (hr_say ''one'' (SessState ''b'') True)
   \<and> hr_StickMessage (hr_say ''two'' sessionBreak True)
   \<and> map_option MessageID
        (case bot_reply world0 (NewMessage 10 (say_data ''one'' (SessState ''a''))) of
           Inl err \<Rightarrow> None | Inr m \<Rightarrow> Some m) = Some 77
   \<and> map_option (\<lambda>r. (fst r, bot_sent (snd r)))
        (stateSwitch (Suc (Suc (Suc 0))) telegram_ab sessA (SessState ''a'') 0 world0)
       = Some (Inr (), [NewMessage 10 (say_data ''one'' (SessState ''a'')),
                        NewMessage 10 (say_data ''two'' (SessState ''b''))])
   \<and> NewMessage 10 (say_data ''two'' (SessState ''b''))
       \<noteq> NewEditMessageText 10 77 (say_data ''two'' (SessState ''b''))"
  by (simp add: telegram_ab_def state_say_def hr_say_def say_data_def sessA_def world0_def
      stateSet_def sessGet_def sessSave_def stateSwitch_send_def SendMessage_def ChatIDGet_def
      SessState_def sessionBreak_def sessionDestroy_def Let_def)

text \<open>
  C6, amended: when \<^verbatim>\<open>stateSwitch\<close> goes on by itself (the state has no message handler,
  the session is in the state, the state handler has returned its result and the send
  block has not failed), the recursive call gets the next state of the result and the
  id \<^verbatim>\<open>mID\<close>: the message id \<^verbatim>\<open>stateSwitch\<close> was itself called with when the result asks
  for stick, and 0 otherwise; the id of the message just sent is not used. When the
  next state is the break state that call returns \<^verbatim>\<open>nil\<close> at once and nothing follows.
  So in a bot whose state handlers all ask for stick (and neither they nor the sent
  handlers send anything themselves), a run entered with a message id other than 0
  makes only edits of that one message, along the whole chain of states.
\<close>

theorem stateSwitch_passes_prior_id:
  "(ns \<noteq> sessionBreak \<and> ns \<noteq> sessionDestroy
     \<and> States (description t) ns = Some st \<and> MessageHandler st = None
     \<and> stateSet s ns w = (Inr (), w1) \<and> StateHandler st = Some h \<and> h s w1 = (Inr hr, w2)
     \<and> stateSwitch_send st s ns (if hr_StickMessage hr then mid else 0) hr w2 = (Inr (), w4)
     \<longrightarrow>
       stateSwitch (Suc n) t s ns mid w =
         stateSwitch n t s (hr_NextState hr) (if hr_StickMessage hr then mid else 0) w4
       \<and> (hr_NextState hr = sessionBreak \<longrightarrow>
            stateSwitch (Suc (Suc n)) t s ns mid w = Some (Inr (), w4)))
   \<and> ((\<forall>ns st h w0. States (description t) ns = Some st \<and> StateHandler st = Some h \<longrightarrow>
             (\<exists>hr. fst (h s w0) = Inr hr \<and> hr_StickMessage hr)
             \<and> bot_sent (snd (h s w0)) = bot_sent w0)
       \<and> (\<forall>ns st sh msgs w0. States (description t) ns = Some st \<and> SentHandler st = Some sh \<longrightarrow>
             bot_sent (snd (sh s msgs w0)) = bot_sent w0)
       \<and> mid \<noteq> 0
       \<and> stateSwitch k t s ns mid w = Some (r, w')
     \<longrightarrow>
       (\<exists>reqs. bot_sent w' = bot_sent w @ reqs
           \<and> (\<forall>q \<in> set reqs. \<exists>d. q = NewEditMessageText (chatID s) mid d)))"
proof (intro conjI impI)
  assume a: "ns \<noteq> sessionBreak \<and> ns \<noteq> sessionDestroy
     \<and> States (description t) ns = Some st \<and> MessageHandler st = None
     \<and> stateSet s ns w = (Inr (), w1) \<and> StateHandler st = Some h \<and> h s w1 = (Inr hr, w2)
     \<and> stateSwitch_send st s ns (if hr_StickMessage hr then mid else 0) hr w2 = (Inr (), w4)"
  then show step: "stateSwitch (Suc n) t s ns mid w =
         stateSwitch n t s (hr_NextState hr) (if hr_StickMessage hr then mid else 0) w4"
    using stateSwitch_advance [of ns t st s w w1 h hr w2 mid w4 n] by blast
  assume b: "hr_NextState hr = sessionBreak"
  have "stateSwitch (Suc (Suc n)) t s ns mid w =
         stateSwitch (Suc n) t s (hr_NextState hr) (if hr_StickMessage hr then mid else 0) w4"
    using a stateSwitch_advance [of ns t st s w w1 h hr w2 mid w4 "Suc n"] by blast
  then show "stateSwitch (Suc (Suc n)) t s ns mid w = Some (Inr (), w4)"
    using b by simp
next
  assume c: "(\<forall>ns st h w0. States (description t) ns = Some st \<and> StateHandler st = Some h \<longrightarrow>
             (\<exists>hr. fst (h s w0) = Inr hr \<and> hr_StickMessage hr)
             \<and> bot_sent (snd (h s w0)) = bot_sent w0)
       \<and> (\<forall>ns st sh msgs w0. States (description t) ns = Some st \<and> SentHandler st = Some sh \<longrightarrow>
             bot_sent (snd (sh s msgs w0)) = bot_sent w0)
       \<and> mid \<noteq> 0
       \<and> stateSwitch k t s ns mid w = Some (r, w')"
  show "\<exists>reqs. bot_sent w' = bot_sent w @ reqs
           \<and> (\<forall>q \<in> set reqs. \<exists>d. q = NewEditMessageText (chatID s) mid d)"
    using c stick_chain [of t s mid k ns w r w'] by blast
qed

theorem stateSwitch_passes_prior_id_witness:
  "SessState ''b'' \<noteq> sessionBreak \<and> SessState ''b'' \<noteq> sessionDestroy
   \<and> States (description telegram_ab) (SessState ''b'') = Some (state_say ''two'' sessionBreak True)
   \<and> MessageHandler (state_say ''two'' sessionBreak True) = None
   \<and> fst (stateSet sessA (SessState ''b'') world0) = Inr ()
   \<and> stateSwitch (Suc (Suc 0)) telegram_ab sessA (SessState ''b'') 7 world0 =
       stateSwitch (Suc 0) telegram_ab sessA sessionBreak 7
         ((snd (stateSet sessA (SessState ''b'') world0))
            \<lparr>bot_sent := [NewEditMessageText 10 7 (say_data ''two'' (SessState ''b''))]\<rparr>)
   \<and> stateSwitch (Suc (Suc 0)) telegram_ab sessA (SessState ''b'') 7 world0 =
       Some (Inr (), (snd (stateSet sessA (SessState ''b'') world0))
            \<lparr>bot_sent := [NewEditMessageText 10 7 (say_data ''two'' (SessState ''b''))]\<rparr>)
   \<and> map_option (\<lambda>r. (fst r, bot_sent (snd r)))
        (stateSwitch (Suc (Suc (Suc 0))) telegram_ab sessA (SessState ''a'') 7 world0)
       = Some (Inr (), [NewEditMessageText 10 7 (say_data ''one'' (SessState ''a'')),
                        NewEditMessageText 10 7 (say_data ''two'' (SessState ''b''))])
   \<and> (\<exists>reqs. map_option (\<lambda>r. bot_sent (snd r))
                (stateSwitch (Suc (Suc (Suc 0))) telegram_ab sessA (SessState ''a'') 7 world0)
              = Some (bot_sent world0 @ reqs)
         \<and> (\<forall>q \<in> set reqs. \<exists>d. q = NewEditMessageText 10 7 d))"
proof -
  let ?st = "state_say ''two'' sessionBreak True"
  let ?hr = "hr_say ''two'' sessionBreak True"
  let ?h = "\<lambda>(s::Session) (w::world). (Inr ?hr :: error + StateHandlerRes, w)"
  let ?w1 = "snd (stateSet sessA (SessState ''b'') world0)"
  let ?w4 = "?w1\<lparr>bot_sent := [NewEditMessageText 10 7 (say_data ''two'' (SessState ''b''))]\<rparr>"
  let ?X = "stateSwitch (Suc (Suc (Suc 0))) telegram_ab sessA (SessState ''a'') 7 world0"
  have a: "SessState ''b'' \<noteq> sessionBreak \<and> SessState ''b'' \<noteq> sessionDestroy"
    by (simp add: SessState_def sessionBreak_def sessionDestroy_def)
  have b: "States (description telegram_ab) (SessState ''b'') = Some ?st"
    by (simp add: telegram_ab_def SessState_def)
  have c: "MessageHandler ?st = None" and d: "StateHandler ?st = Some ?h"
    by (simp_all add: state_say_def)
  have e: "stateSet sessA (SessState ''b'') world0 = (Inr (), ?w1)"
    by (simp add: stateSet_def sessGet_def sessSave_def world0_def sessA_def)
  have f: "?h sessA ?w1 = (Inr ?hr, ?w1)"
    by simp
  have g: "stateSwitch_send ?st sessA (SessState ''b'') (if hr_StickMessage ?hr then 7 else 0) ?hr ?w1
      = (Inr (), ?w4)"
    by (simp add: stateSwitch_send_def SendMessage_def ChatIDGet_def hr_say_def state_say_def
        say_data_def stateSet_def sessGet_def sessSave_def world0_def sessA_def Let_def)
  have nx: "hr_NextState ?hr = sessionBreak" and sk: "hr_StickMessage ?hr"
    by (simp_all add: hr_say_def)
  note first = stateSwitch_passes_prior_id [where ns = "SessState ''b''" and t = telegram_ab
      and st = ?st and s = sessA and w = world0 and ?w1.0 = ?w1 and h = ?h and hr = ?hr
      and ?w2.0 = ?w1 and mid = 7 and ?w4.0 = ?w4 and n = "Suc 0", THEN conjunct1]
  have step: "stateSwitch (Suc (Suc 0)) telegram_ab sessA (SessState ''b'') 7 world0 =
       stateSwitch (Suc 0) telegram_ab sessA sessionBreak 7 ?w4"
    using first a b c d e f g nx sk by simp
  note second = stateSwitch_passes_prior_id [where ns = "SessState ''b''" and t = telegram_ab
      and st = ?st and s = sessA and w = world0 and ?w1.0 = ?w1 and h = ?h and hr = ?hr
      and ?w2.0 = ?w1 and mid = 7 and ?w4.0 = ?w4 and n = 0, THEN conjunct1]
  have brk: "stateSwitch (Suc (Suc 0)) telegram_ab sessA (SessState ''b'') 7 world0 = Some (Inr (), ?w4)"
    using second a b c d e f g nx sk by simp
  have ev: "map_option (\<lambda>r. (fst r, bot_sent (snd r))) ?X
       = Some (Inr (), [NewEditMessageText 10 7 (say_data ''one'' (SessState ''a'')),
                        NewEditMessageText 10 7 (say_data ''two'' (SessState ''b''))])"
    by (simp add: telegram_ab_def state_say_def hr_say_def say_data_def sessA_def world0_def
        stateSet_def sessGet_def sessSave_def stateSwitch_send_def SendMessage_def ChatIDGet_def
        SessState_def sessionBreak_def sessionDestroy_def Let_def)
  then obtain r w' where run: "?X = Some (r, w')"
    by (cases ?X) auto
  have sticky: "\<forall>ns st h w0. States (description telegram_ab) ns = Some st \<and> StateHandler st = Some h \<longrightarrow>
             (\<exists>hr. fst (h sessA w0) = Inr hr \<and> hr_StickMessage hr)
             \<and> bot_sent (snd (h sessA w0)) = bot_sent w0"
    by (auto simp add: telegram_ab_def state_say_def hr_say_def split: if_splits)
  have quiet: "\<forall>ns st sh msgs w0. States (description telegram_ab) ns = Some st \<and> SentHandler st = Some sh \<longrightarrow>
             bot_sent (snd (sh sessA msgs w0)) = bot_sent w0"
    by (auto simp add: telegram_ab_def state_say_def split: if_splits)
  have nz: "(7::int) \<noteq> 0"
    by simp
  note third = stateSwitch_passes_prior_id [where t = telegram_ab and s = sessA and mid = 7
      and k = "Suc (Suc (Suc 0))" and ns = "SessState ''a''" and w = world0 and r = r and w' = w',
      THEN conjunct2]
  have "\<exists>reqs. bot_sent w' = bot_sent world0 @ reqs
           \<and> (\<forall>q \<in> set reqs. \<exists>d. q = NewEditMessageText (chatID sessA) 7 d)"
    using third sticky quiet nz run by blast
  then have chain: "\<exists>reqs. map_option (\<lambda>r. bot_sent (snd r)) ?X = Some (bot_sent world0 @ reqs)
         \<and> (\<forall>q \<in> set reqs. \<exists>d. q = NewEditMessageText 10 7 d)"
    using run by (simp add: sessA_def)
  have e1: "fst (stateSet sessA (SessState ''b'') world0) = Inr ()"
    by (simp add: stateSet_def sessGet_def sessSave_def world0_def sessA_def)
  show ?thesis
    using a b c e1 step brk ev chain by blast
qed

subsection \<open>Queue\<close>






















end
